theory Spec2Isabelle
  imports Complex_Main "HOL-Library.Sublist"
begin

section \<open>JavaScript values used by the colour engine\<close>

text \<open>
  JavaScript numbers are modelled as exact rationals: every arithmetic step of the source
  is kept, its IEEE rounding error is not. \<open>NaN\<close>, where the source can produce it from
  a string, is the value \<open>None\<close>. \<open>Math.round\<close> rounds half up.
\<close>

definition js_round :: "rat \<Rightarrow> int" where
  "js_round v = \<lfloor>v + 1 / 2\<rfloor>"

definition js_trunc :: "rat \<Rightarrow> int" where
  "js_trunc v = (if 0 \<le> v then \<lfloor>v\<rfloor> else \<lceil>v\<rceil>)"

text \<open>The remainder operator \<open>a % b\<close>: the result has the sign of the dividend.\<close>

definition js_rem :: "rat \<Rightarrow> rat \<Rightarrow> rat" where
  "js_rem a b = a - b * of_int (js_trunc (a / b))"


definition hexDigitTable :: "(char \<times> nat) list" where
  "hexDigitTable =
     [(CHR ''0'', 0), (CHR ''1'', 1), (CHR ''2'', 2), (CHR ''3'', 3), (CHR ''4'', 4),
      (CHR ''5'', 5), (CHR ''6'', 6), (CHR ''7'', 7), (CHR ''8'', 8), (CHR ''9'', 9),
      (CHR ''a'', 10), (CHR ''b'', 11), (CHR ''c'', 12), (CHR ''d'', 13), (CHR ''e'', 14),
      (CHR ''f'', 15), (CHR ''A'', 10), (CHR ''B'', 11), (CHR ''C'', 12), (CHR ''D'', 13),
      (CHR ''E'', 14), (CHR ''F'', 15)]"

definition hexDigitVal :: "char \<Rightarrow> nat option" where
  "hexDigitVal c = map_of hexDigitTable c"

definition isHexDigit :: "char \<Rightarrow> bool" where
  "isHexDigit c = (hexDigitVal c \<noteq> None)"

definition isWhiteSpace :: "char \<Rightarrow> bool" where
  "isWhiteSpace c = (c \<in> set [CHR 0x09, CHR 0x0A, CHR 0x0B, CHR 0x0C, CHR 0x0D, CHR 0x20])"

definition stripHexPrefix :: "string \<Rightarrow> string" where
  "stripHexPrefix s =
     (case s of
        a # b # r \<Rightarrow> if a = CHR ''0'' \<and> (b = CHR ''x'' \<or> b = CHR ''X'') then r else s
      | _ \<Rightarrow> s)"

definition hexVal :: "char \<Rightarrow> nat" where
  "hexVal c = (case hexDigitVal c of Some d \<Rightarrow> d | None \<Rightarrow> 0)"

definition hexDigitsVal :: "string \<Rightarrow> nat" where
  "hexDigitsVal ds = foldl (\<lambda>a c. 16 * a + hexVal c) 0 ds"

text \<open>
  \<open>parseInt(s, 16)\<close>: leading white space, an optional sign, an optional \<open>0x\<close>, then the
  longest run of hex digits; \<open>NaN\<close> when that run is empty.
\<close>

definition parseInt16 :: "string \<Rightarrow> int option" where
  "parseInt16 s =
     (let s1 = dropWhile isWhiteSpace s;
          neg = (case s1 of c # _ \<Rightarrow> c = CHR ''-'' | [] \<Rightarrow> False);
          s2 = (case s1 of c # r \<Rightarrow> if c = CHR ''-'' \<or> c = CHR ''+'' then r else s1 | [] \<Rightarrow> s1);
          ds = takeWhile isHexDigit (stripHexPrefix s2)
      in if ds = [] then None
         else Some ((if neg then - 1 else 1) * int (hexDigitsVal ds)))"

definition hexDigitChar :: "nat \<Rightarrow> char" where
  "hexDigitChar d = ''0123456789abcdef'' ! d"

text \<open>\<open>n.toString(16)\<close> for a non-negative integer.\<close>

fun toString16 :: "nat \<Rightarrow> string" where
  "toString16 n =
     (if n < 16 then [hexDigitChar n] else toString16 (n div 16) @ [hexDigitChar (n mod 16)])"

declare toString16.simps [simp del]

definition padStart2 :: "string \<Rightarrow> string" where
  "padStart2 s = replicate (2 - length s) CHR ''0'' @ s"

definition upperTable :: "(char \<times> char) list" where
  "upperTable = zip ''abcdefghijklmnopqrstuvwxyz'' ''ABCDEFGHIJKLMNOPQRSTUVWXYZ''"

definition toUpperChar :: "char \<Rightarrow> char" where
  "toUpperChar c = (case map_of upperTable c of Some u \<Rightarrow> u | None \<Rightarrow> c)"

definition toUpperCase :: "string \<Rightarrow> string" where
  "toUpperCase s = map toUpperChar s"

section \<open>Colour math: hex, RGB and HSL\<close>

text \<open>\<open>hexToRgb\<close>: three \<open>parseInt(hex.slice(i, i + 2), 16)\<close>.\<close>

definition hexToRgb :: "string \<Rightarrow> int option \<times> int option \<times> int option" where
  "hexToRgb hex =
     (parseInt16 (take 2 hex), parseInt16 (take 2 (drop 2 hex)), parseInt16 (take 2 (drop 4 hex)))"

definition toHex :: "rat \<Rightarrow> string" where
  "toHex v = toUpperCase (padStart2 (toString16 (nat (js_round (max 0 (min 255 v))))))"

definition rgbToHex :: "rat \<Rightarrow> rat \<Rightarrow> rat \<Rightarrow> string" where
  "rgbToHex r g b = toHex r @ toHex g @ toHex b"

definition rgbToHsl :: "rat \<Rightarrow> rat \<Rightarrow> rat \<Rightarrow> rat \<times> rat \<times> rat" where
  "rgbToHsl r0 g0 b0 =
     (let r = r0 / 255; g = g0 / 255; b = b0 / 255;
          mx = max (max r g) b;
          mn = min (min r g) b;
          l = (mx + mn) / 2
      in if mx = mn then (0, 0, l)
         else
           let d = mx - mn;
               s = (if l > 1 / 2 then d / (2 - mx - mn) else d / (mx + mn));
               h = (if mx = r then ((g - b) / d + (if g < b then 6 else 0)) / 6
                    else if mx = g then ((b - r) / d + 2) / 6
                    else ((r - g) / d + 4) / 6)
           in (h * 360, s, l))"

definition hue2rgb :: "rat \<Rightarrow> rat \<Rightarrow> rat \<Rightarrow> rat" where
  "hue2rgb p q t0 =
     (let t1 = (if t0 < 0 then t0 + 1 else t0);
          t = (if t1 > 1 then t1 - 1 else t1)
      in if t < 1 / 6 then p + (q - p) * 6 * t
         else if t < 1 / 2 then q
         else if t < 2 / 3 then p + (q - p) * (2 / 3 - t) * 6
         else p)"

definition hslToRgb :: "rat \<Rightarrow> rat \<Rightarrow> rat \<Rightarrow> int \<times> int \<times> int" where
  "hslToRgb h0 s l =
     (let h = h0 / 360
      in if s = 0 then (let v = js_round (l * 255) in (v, v, v))
         else
           let q = (if l < 1 / 2 then l * (1 + s) else l + s - l * s);
               p = 2 * l - q
           in (js_round (hue2rgb p q (h + 1 / 3) * 255),
               js_round (hue2rgb p q h * 255),
               js_round (hue2rgb p q (h - 1 / 3) * 255)))"

definition hexColor6 :: "string \<Rightarrow> bool" where
  "hexColor6 c = (length c = 6 \<and> list_all isHexDigit c)"

section \<open>Colour modifiers\<close>

text \<open>
  The modifier object: a field is \<open>None\<close> when the key is absent, else the number it
  holds, in OOXML units (100000 = 100 percent).
\<close>

record modifiers =
  tint :: "rat option"
  shade :: "rat option"
  hueMod :: "rat option"
  hueOff :: "rat option"
  satMod :: "rat option"
  satOff :: "rat option"
  lumMod :: "rat option"
  lumOff :: "rat option"
  alpha :: "rat option"

definition noModifiers :: modifiers where
  "noModifiers = \<lparr>tint = None, shade = None, hueMod = None, hueOff = None, satMod = None,
     satOff = None, lumMod = None, lumOff = None, alpha = None\<rparr>"

definition lumModOnly :: "rat \<Rightarrow> modifiers" where
  "lumModOnly v = noModifiers\<lparr>lumMod := Some v\<rparr>"

definition applyShade :: "rat option \<Rightarrow> rat \<Rightarrow> rat" where
  "applyShade m c = (case m of None \<Rightarrow> c | Some v \<Rightarrow> of_int (js_round (c * (v / 100000))))"

definition applyTint :: "rat option \<Rightarrow> rat \<Rightarrow> rat" where
  "applyTint m c = (case m of None \<Rightarrow> c | Some v \<Rightarrow> of_int (js_round (c + (255 - c) * (v / 100000))))"

definition clamp01 :: "rat \<Rightarrow> rat" where
  "clamp01 v = max 0 (min 1 v)"

text \<open>
  The numeric body of \<open>applyColorModifiers\<close>, from the three channels to the three
  channels: shade, tint, to HSL, hue, saturation, luminance, back to RGB.
\<close>

definition applyModifiersRgb :: "rat \<times> rat \<times> rat \<Rightarrow> modifiers \<Rightarrow> int \<times> int \<times> int" where
  "applyModifiersRgb rgb m =
     (case rgb of (r0, g0, b0) \<Rightarrow>
        let r1 = applyShade (shade m) r0; g1 = applyShade (shade m) g0; b1 = applyShade (shade m) b0;
            r = applyTint (tint m) r1; g = applyTint (tint m) g1; b = applyTint (tint m) b1
        in case rgbToHsl r g b of (h0, sat0, l0) \<Rightarrow>
          let h1 = (case hueMod m of None \<Rightarrow> h0 | Some v \<Rightarrow> js_rem (h0 * (v / 100000)) 360);
              h = (case hueOff m of None \<Rightarrow> h1
                   | Some v \<Rightarrow> js_rem (js_rem (h1 + v / 60000) 360 + 360) 360);
              sat1 = (case satMod m of None \<Rightarrow> sat0 | Some v \<Rightarrow> clamp01 (sat0 * (v / 100000)));
              sat = (case satOff m of None \<Rightarrow> sat1 | Some v \<Rightarrow> clamp01 (sat1 + v / 100000));
              l1 = (case lumMod m of None \<Rightarrow> l0 | Some v \<Rightarrow> l0 * (v / 100000));
              l2 = (case lumOff m of None \<Rightarrow> l1 | Some v \<Rightarrow> l1 + v / 100000);
              l = clamp01 l2
          in hslToRgb h sat l)"

text \<open>
  \<open>applyColorModifiers\<close>. When a channel of the input parses to \<open>NaN\<close>, \<open>Math.max\<close> in
  \<open>rgbToHsl\<close> is \<open>NaN\<close>, so are hue, saturation and lightness and the three channels
  computed from them, and each prints as \<open>NAN\<close>.
\<close>

definition applyColorModifiers :: "string \<Rightarrow> modifiers \<Rightarrow> string" where
  "applyColorModifiers hex m =
     (case hexToRgb hex of
        (Some r, Some g, Some b) \<Rightarrow>
          (case applyModifiersRgb (of_int r, of_int g, of_int b) m of
             (nr, ng, nb) \<Rightarrow> rgbToHex (of_int nr) (of_int ng) (of_int nb))
      | _ \<Rightarrow> ''NANNANNAN'')"

section \<open>The colour resolver\<close>
































section \<open>Text runs and line breaks\<close>





text \<open>
  The run properties that \<open>extractRunProps\<close> returns, as far as later stages read them
  here: font face, font size, colour, bold and italic. \<open>None\<close> is \<open>undefined\<close>.
\<close>

record run_props =
  rp_fontFace :: "string option"
  rp_fontSize :: "rat option"
  rp_color :: "string option"
  rp_bold :: "bool option"
  rp_italic :: "bool option"


text \<open>
  A run of the output: a flag that is \<open>False\<close> stands for a key that is absent. A text run
  has neither flag, a field run has \<open>isField\<close> and its \<open>fieldType\<close>, a break has \<open>isBreak\<close>.
\<close>

record run =
  run_text :: string
  isField :: bool
  fieldType :: string
  isBreak :: bool
  props :: run_props










section \<open>Text properties, positions and the slide number\<close>

record position =
  pos_x :: rat
  pos_y :: rat
  pos_w :: rat
  pos_h :: rat

record body_props =
  bp_margin :: "rat list option"

record lst_level =
  ll_align :: "string option"
  ll_defaultRunProps :: "run_props option"

record text_paragraph =
  explicitAlign :: "string option"
  p_align :: "string option"
  p_defaultRunProps :: "run_props option"
  p_runs :: "run list"

text \<open>
  \<open>textProps\<close>: the fields that \<open>mapTextPropsToOptions\<close> reads for the slide number. A
  paragraph's \<open>runs\<close> that is \<open>undefined\<close> is the empty list: the source skips both alike.
\<close>

record text_props =
  bodyProps :: "body_props option"
  paragraphs :: "text_paragraph list option"
  lstStyleProps :: "(nat \<rightharpoonup> lst_level) option"




definition truthyStr :: "string option \<Rightarrow> string option" where
  "truthyStr v = (case v of Some s \<Rightarrow> if s = [] then None else Some s | None \<Rightarrow> None)"












section \<open>Layout placeholders and the master's defaults\<close>

text \<open>
  The placeholder marker that \<open>extractPlaceholder\<close> returns (its \<open>sz\<close> is not read here),
  and an entry of the master's \<open>placeholderDefaults\<close>.
\<close>

record ph_marker =
  ph_type :: "string option"
  ph_idx :: "string option"

record ph_default =
  def_position :: "position option"
  def_textProps :: "text_props option"

text \<open>
  What \<open>processShape\<close> has in hand before it looks at the master: the name, the marker,
  the position from \<open>extractPosition\<close> (\<open>None\<close> is \<open>null\<close>) and the text properties
  (\<open>None\<close> when the shape has no \<open>p:txBody\<close>). Rotation, geometry, fill and line are copied to
  the result unchanged and are left out.
\<close>

record shape_el =
  sp_name :: string
  sp_ph :: "ph_marker option"
  sp_position :: "position option"
  sp_textProps :: "text_props option"

record processed_shape =
  isPlaceholder :: bool
  out_type :: "string option"
  out_idx :: "string option"
  out_name :: string
  out_position :: "position option"
  out_textProps :: "text_props option"

text \<open>
  \<open>(ph.type && masterDefaults[ph.type]) || (ph.idx != null && masterDefaults[`idx:${ph.idx}`]) || null\<close>
\<close>

definition lookupMasterDefault :: "(string \<rightharpoonup> ph_default) \<Rightarrow> ph_marker \<Rightarrow> ph_default option" where
  "lookupMasterDefault masterDefaults ph =
     (case (case truthyStr (ph_type ph) of None \<Rightarrow> None | Some t \<Rightarrow> masterDefaults t) of
        Some d \<Rightarrow> Some d
      | None \<Rightarrow>
          (case ph_idx ph of None \<Rightarrow> None | Some i \<Rightarrow> masterDefaults (''idx:'' @ i)))"

definition processShape :: "shape_el \<Rightarrow> (string \<rightharpoonup> ph_default) option \<Rightarrow> processed_shape" where
  "processShape sp masterDefaults =
     (case sp_ph sp of
        Some ph \<Rightarrow>
          (case (sp_position sp, masterDefaults) of
             (None, Some md) \<Rightarrow>
               let masterPh = lookupMasterDefault md ph;
                   position = (case masterPh of None \<Rightarrow> None | Some d \<Rightarrow> def_position d);
                   textProps = (case sp_textProps sp of
                                  Some t \<Rightarrow> Some t
                                | None \<Rightarrow> (case masterPh of None \<Rightarrow> None | Some d \<Rightarrow> def_textProps d))
               in \<lparr>isPlaceholder = True, out_type = ph_type ph, out_idx = ph_idx ph,
                   out_name = sp_name sp, out_position = position, out_textProps = textProps\<rparr>
           | _ \<Rightarrow>
               \<lparr>isPlaceholder = True, out_type = ph_type ph, out_idx = ph_idx ph,
                out_name = sp_name sp, out_position = sp_position sp,
                out_textProps = sp_textProps sp\<rparr>)
      | None \<Rightarrow>
          \<lparr>isPlaceholder = False, out_type = Some ''shape'', out_idx = None,
           out_name = sp_name sp, out_position = sp_position sp,
           out_textProps = sp_textProps sp\<rparr>)"

section \<open>Limited palettes\<close>

text \<open>
  \<open>hexBrightness\<close>: \<open>None\<close> is \<open>NaN\<close>, which a channel that does not parse gives. The
  argument is a string here: the caller has filtered the falsy values out.
\<close>

definition hexBrightness :: "string \<Rightarrow> rat option" where
  "hexBrightness hex =
     (if hex = [] then Some 0
      else
        let clean = remove1 CHR ''#'' hex
        in if length clean < 6 then Some 0
           else
             (case (parseInt16 (take 2 clean), parseInt16 (take 2 (drop 2 clean)),
                    parseInt16 (take 2 (drop 4 clean))) of
                (Some r, Some g, Some b) \<Rightarrow>
                  Some (of_int r * (299 / 1000) + of_int g * (587 / 1000) + of_int b * (114 / 1000))
              | _ \<Rightarrow> None))"

definition accentSlots :: "string list" where
  "accentSlots = [''accent1'', ''accent2'', ''accent3'', ''accent4'', ''accent5'', ''accent6'']"

text \<open>The filter of \<open>detectLimitedPalette\<close>: a comparison with \<open>NaN\<close> is false.\<close>

definition nonNeutral :: "string \<Rightarrow> bool" where
  "nonNeutral hex = (case hexBrightness hex of None \<Rightarrow> False | Some b \<Rightarrow> b \<le> 245 \<and> b \<ge> 10)"

text \<open>\<open>[...new Set(xs)]\<close>: the distinct elements, in the order of their first occurrence.\<close>

definition uniqueInOrder :: "'a list \<Rightarrow> 'a list" where
  "uniqueInOrder xs = foldl (\<lambda>acc v. if v \<in> set acc then acc else acc @ [v]) [] xs"

record palette_info =
  isLimited :: bool
  usableAccents :: "string list"

definition accentsOf :: "(string \<rightharpoonup> string) \<Rightarrow> string list" where
  "accentsOf tc = List.map_filter (\<lambda>s. truthyStr (tc s)) accentSlots"

definition detectLimitedPalette :: "(string \<rightharpoonup> string) option \<Rightarrow> palette_info" where
  "detectLimitedPalette theme =
     (case theme of
        None \<Rightarrow> \<lparr>isLimited = False, usableAccents = []\<rparr>
      | Some tc \<Rightarrow>
          let unique = uniqueInOrder (filter nonNeutral (accentsOf tc))
          in \<lparr>isLimited = length unique < 2, usableAccents = unique\<rparr>)"

section \<open>Deduplicating the objects of a layout\<close>














section \<open>Relationship targets\<close>

text \<open>\<open>s.split('/')\<close> and \<open>segments.join('/')\<close>.\<close>

fun splitSlash :: "string \<Rightarrow> string list" where
  "splitSlash [] = [[]]"
| "splitSlash (c # cs) =
     (if c = CHR ''/'' then [] # splitSlash cs
      else (case splitSlash cs of [] \<Rightarrow> [[c]] | seg # segs \<Rightarrow> (c # seg) # segs))"

fun joinSlash :: "string list \<Rightarrow> string" where
  "joinSlash [] = []"
| "joinSlash [seg] = seg"
| "joinSlash (seg # segs) = seg @ CHR ''/'' # joinSlash segs"

text \<open>\<open>basePath.slice(0, basePath.lastIndexOf('/'))\<close>, or the empty string without a slash.\<close>

definition baseDirOf :: "string \<Rightarrow> string" where
  "baseDirOf basePath =
     (if CHR ''/'' \<in> set basePath
      then take (length basePath - Suc (length (takeWhile (\<lambda>c. c \<noteq> CHR ''/'') (rev basePath)))) basePath
      else [])"

text \<open>
  The loop over the segments of the target. \<open>segments.pop()\<close> on an empty array returns
  \<open>undefined\<close> and leaves the array empty: that is \<open>butlast\<close>.
\<close>

fun applySegments :: "string list \<Rightarrow> string list \<Rightarrow> string list" where
  "applySegments segments [] = segments"
| "applySegments segments (seg # segs) =
     (if seg = ''..'' then applySegments (butlast segments) segs
      else if seg \<noteq> ''.'' \<and> seg \<noteq> [] then applySegments (segments @ [seg]) segs
      else applySegments segments segs)"

definition baseSegments :: "string \<Rightarrow> string list" where
  "baseSegments basePath = (let baseDir = baseDirOf basePath in if baseDir = [] then [] else splitSlash baseDir)"

definition resolveRelPath :: "string \<Rightarrow> string \<Rightarrow> string" where
  "resolveRelPath basePath relTarget =
     (case relTarget of
        c # cs \<Rightarrow>
          if c = CHR ''/'' then cs
          else joinSlash (applySegments (baseSegments basePath) (splitSlash relTarget))
      | [] \<Rightarrow> joinSlash (applySegments (baseSegments basePath) (splitSlash relTarget)))"

text \<open>\<open>n\<close> times \<open>../\<close> in front of a target.\<close>

definition upwards :: "nat \<Rightarrow> string \<Rightarrow> string" where
  "upwards n target = concat (replicate n ''../'') @ target"

section \<open>Notions used in the statements\<close>





text \<open>The luma-weighted brightness of three channels, on the scale 0 to 255.\<close>

definition luma :: "int \<Rightarrow> int \<Rightarrow> int \<Rightarrow> rat" where
  "luma r g b = of_int r * (299 / 1000) + of_int g * (587 / 1000) + of_int b * (114 / 1000)"

text \<open>
  The distinct non-neutral colours among the theme's six accent slots.
\<close>

definition usableSet :: "(string \<rightharpoonup> string) \<Rightarrow> string set" where
  "usableSet tc = {h. h \<noteq> [] \<and> nonNeutral h \<and> (\<exists>s \<in> set accentSlots. tc s = Some h)}"


section \<open>Example data\<close>







definition masterTitlePos :: position where
  "masterTitlePos = \<lparr>pos_x = 1 / 2, pos_y = 3 / 10, pos_w = 9, pos_h = 3 / 2\<rparr>"

definition masterIdxPos :: position where
  "masterIdxPos = \<lparr>pos_x = 1, pos_y = 2, pos_w = 8, pos_h = 4\<rparr>"

definition localPos :: position where
  "localPos = \<lparr>pos_x = 1, pos_y = 1, pos_w = 8, pos_h = 1\<rparr>"

definition masterTitleText :: text_props where
  "masterTitleText = \<lparr>bodyProps = None, paragraphs = Some [], lstStyleProps = None\<rparr>"

definition titleMarker :: ph_marker where
  "titleMarker = \<lparr>ph_type = Some ''title'', ph_idx = Some ''0''\<rparr>"

definition idxMarker :: ph_marker where
  "idxMarker = \<lparr>ph_type = None, ph_idx = Some ''10''\<rparr>"

definition masterTitleDefault :: ph_default where
  "masterTitleDefault = \<lparr>def_position = Some masterTitlePos, def_textProps = Some masterTitleText\<rparr>"

definition exampleDefaults :: "string \<rightharpoonup> ph_default" where
  "exampleDefaults =
     map_of [(''title'', masterTitleDefault),
             (''idx:10'', \<lparr>def_position = Some masterIdxPos, def_textProps = None\<rparr>)]"

definition titleNoPosition :: shape_el where
  "titleNoPosition = \<lparr>sp_name = ''Title 1'', sp_ph = Some titleMarker, sp_position = None,
     sp_textProps = None\<rparr>"

definition titleLocalPosition :: shape_el where
  "titleLocalPosition = \<lparr>sp_name = ''Title 1'', sp_ph = Some titleMarker,
     sp_position = Some localPos, sp_textProps = None\<rparr>"

definition contentNoPosition :: shape_el where
  "contentNoPosition = \<lparr>sp_name = ''Content'', sp_ph = Some idxMarker, sp_position = None,
     sp_textProps = None\<rparr>"







definition allWhiteTheme :: "string \<rightharpoonup> string" where
  "allWhiteTheme = map_of (map (\<lambda>s. (s, ''FFFFFF'')) accentSlots)"

definition mixedTheme :: "string \<rightharpoonup> string" where
  "mixedTheme =
     map_of [(''accent1'', ''4472C4''), (''accent2'', ''ED7D31''), (''accent3'', ''FFFFFF''),
             (''accent4'', ''000000''), (''accent5'', ''4472C4'')]"



section \<open>Properties of the colour math\<close>

subsection \<open>The hue function on its six segments\<close>

lemma hue2rgb_rise: "0 \<le> t \<Longrightarrow> t \<le> 1 / 6 \<Longrightarrow> hue2rgb p q t = p + (q - p) * 6 * t"
proof (cases "t = 1 / 6")
  case True
  show ?thesis unfolding True by (simp add: hue2rgb_def Let_def diff_divide_distrib)
next
  case False
  assume "0 \<le> t" "t \<le> 1 / 6"
  with False show ?thesis by (simp add: hue2rgb_def Let_def)
qed

lemma hue2rgb_top: "1 / 6 \<le> t \<Longrightarrow> t \<le> 1 / 2 \<Longrightarrow> hue2rgb p q t = q"
proof (cases "t = 1 / 2")
  case True
  show ?thesis unfolding True by (simp add: hue2rgb_def Let_def diff_divide_distrib)
next
  case False
  assume "1 / 6 \<le> t" "t \<le> 1 / 2"
  with False show ?thesis by (simp add: hue2rgb_def Let_def)
qed

lemma hue2rgb_fall: "1 / 2 \<le> t \<Longrightarrow> t \<le> 2 / 3 \<Longrightarrow> hue2rgb p q t = p + (q - p) * (2 / 3 - t) * 6"
  by (auto simp: hue2rgb_def Let_def)

lemma hue2rgb_bottom: "2 / 3 \<le> t \<Longrightarrow> t \<le> 1 \<Longrightarrow> hue2rgb p q t = p"
  by (auto simp: hue2rgb_def Let_def)

lemma hue2rgb_wrap_neg: "- 1 \<le> t \<Longrightarrow> t < 0 \<Longrightarrow> hue2rgb p q t = hue2rgb p q (t + 1)"
  by (auto simp: hue2rgb_def Let_def)

lemma hue2rgb_wrap_pos: "1 < t \<Longrightarrow> t \<le> 2 \<Longrightarrow> hue2rgb p q t = hue2rgb p q (t - 1)"
  by (auto simp: hue2rgb_def Let_def)

lemma hue_up0: "0 \<le> u \<Longrightarrow> u \<le> 1 \<Longrightarrow> hue2rgb p q (u / 6) = p + (q - p) * u"
  using hue2rgb_rise [of "u / 6" p q] by simp

lemma hue_up1: "0 \<le> u \<Longrightarrow> u \<le> 1 \<Longrightarrow> hue2rgb p q (u / 6 + 1 / 3) = q"
  using hue2rgb_top [of "u / 6 + 1 / 3" p q] by simp

lemma hue_up2: "0 \<le> u \<Longrightarrow> u \<le> 1 \<Longrightarrow> hue2rgb p q (u / 6 + 2 / 3) = p"
  using hue2rgb_bottom [of "u / 6 + 2 / 3" p q] by simp

lemma hue_up3: "0 \<le> u \<Longrightarrow> u \<le> 1 \<Longrightarrow> hue2rgb p q (u / 6 + 1) = p + (q - p) * u"
proof (cases "u = 0")
  case True
  then show ?thesis using hue2rgb_bottom [of 1 p q] by simp
next
  case False
  assume "0 \<le> u" "u \<le> 1"
  with False show ?thesis
    using hue2rgb_wrap_pos [of "u / 6 + 1" p q] hue_up0 [of u p q] by simp
qed

lemma hue_up_neg: "0 \<le> u \<Longrightarrow> u \<le> 1 \<Longrightarrow> hue2rgb p q (u / 6 - 1 / 3) = p"
  using hue2rgb_wrap_neg [of "u / 6 - 1 / 3" p q] hue2rgb_bottom [of "u / 6 - 1 / 3 + 1" p q]
  by simp

lemma hue_dn0: "0 \<le> w \<Longrightarrow> w \<le> 1 \<Longrightarrow> hue2rgb p q (- (w / 6)) = p"
proof (cases "w = 0")
  case True
  then show ?thesis using hue2rgb_rise [of 0 p q] by simp
next
  case False
  assume "0 \<le> w" "w \<le> 1"
  with False show ?thesis
    using hue2rgb_wrap_neg [of "- (w / 6)" p q] hue2rgb_bottom [of "- (w / 6) + 1" p q] by simp
qed

lemma hue_dn1: "0 \<le> w \<Longrightarrow> w \<le> 1 \<Longrightarrow> hue2rgb p q (1 / 3 - w / 6) = q"
  using hue2rgb_top [of "1 / 3 - w / 6" p q] by simp

lemma hue_dn2: "0 \<le> w \<Longrightarrow> w \<le> 1 \<Longrightarrow> hue2rgb p q (2 / 3 - w / 6) = p + (q - p) * w"
  using hue2rgb_fall [of "2 / 3 - w / 6" p q] by simp

lemma hue_dn3: "0 \<le> w \<Longrightarrow> w \<le> 1 \<Longrightarrow> hue2rgb p q (1 - w / 6) = p"
  using hue2rgb_bottom [of "1 - w / 6" p q] by simp

lemma hue_dn4: "0 \<le> w \<Longrightarrow> w \<le> 1 \<Longrightarrow> hue2rgb p q (4 / 3 - w / 6) = q"
  using hue2rgb_wrap_pos [of "4 / 3 - w / 6" p q] hue2rgb_top [of "4 / 3 - w / 6 - 1" p q]
  by simp

text \<open>The position of a channel between the smallest and the largest one.\<close>

lemma between:
  fixes lo hi v :: rat
  assumes "lo \<le> v" "v \<le> hi" "lo < hi"
  shows "0 \<le> (v - lo) / (hi - lo)" "(v - lo) / (hi - lo) \<le> 1"
    "lo + (hi - lo) * ((v - lo) / (hi - lo)) = v"
  using assms by (simp_all add: divide_le_eq)

lemma js_round_of_int: "js_round (of_int n) = n"
  unfolding js_round_def by linarith

lemma hue_channels:
  fixes r g b :: rat
  assumes ne: "max (max r g) b \<noteq> min (min r g) b"
    and hue: "h = (if max (max r g) b = r
                   then ((g - b) / (max (max r g) b - min (min r g) b) + (if g < b then 6 else 0)) / 6
                   else if max (max r g) b = g
                   then ((b - r) / (max (max r g) b - min (min r g) b) + 2) / 6
                   else ((r - g) / (max (max r g) b - min (min r g) b) + 4) / 6)"
  shows "hue2rgb (min (min r g) b) (max (max r g) b) (h + 1 / 3) = r
       \<and> hue2rgb (min (min r g) b) (max (max r g) b) h = g
       \<and> hue2rgb (min (min r g) b) (max (max r g) b) (h - 1 / 3) = b"
proof -
  have ne': "r \<noteq> g \<or> g \<noteq> b" using ne by auto
  have "(b \<le> g \<and> g \<le> r \<and> b < r) \<or> (g < b \<and> b \<le> r) \<or> (b < r \<and> r < g)
      \<or> (r \<le> b \<and> b \<le> g \<and> r < g) \<or> (r \<le> g \<and> g < b) \<or> (g < r \<and> r < b)"
    using ne' by linarith
  then consider (A) "b \<le> g" "g \<le> r" "b < r" | (B) "g < b" "b \<le> r"
    | (C) "b < r" "r < g" | (D) "r \<le> b" "b \<le> g" "r < g"
    | (E) "r \<le> g" "g < b" | (F) "g < r" "r < b"
    by blast
  then show ?thesis
  proof cases
    case A
    note bt = between [of b g r]
    from A have mm: "max (max r g) b = r" "min (min r g) b = b" by simp_all
    have h: "h = ((g - b) / (r - b)) / 6" using A by (simp add: hue mm)
    show ?thesis unfolding mm h
      using hue_up1 [OF bt(1,2), of b r] hue_up0 [OF bt(1,2), of b r] hue_up_neg [OF bt(1,2), of b r] bt(3) A
      by simp
  next
    case B
    note bt = between [of g b r]
    from B have mm: "max (max r g) b = r" "min (min r g) b = g" by simp_all
    have h: "h = 1 - ((b - g) / (r - g)) / 6" using B
      by (simp add: hue mm field_simps)
    show ?thesis unfolding mm h
      using hue_dn4 [OF bt(1,2), of g r] hue_dn3 [OF bt(1,2), of g r] hue_dn2 [OF bt(1,2), of g r] bt(3) B
      by (simp add: algebra_simps)
  next
    case C
    note bt = between [of b r g]
    from C have mm: "max (max r g) b = g" "min (min r g) b = b" by simp_all
    have h: "h = 1 / 3 - ((r - b) / (g - b)) / 6" using C
      by (simp add: hue mm field_simps)
    show ?thesis unfolding mm h
      using hue_dn2 [OF bt(1,2), of b g] hue_dn1 [OF bt(1,2), of b g] hue_dn0 [OF bt(1,2), of b g] bt(3) C
      by (simp add: algebra_simps)
  next
    case D
    note bt = between [of r b g]
    from D have mm: "max (max r g) b = g" "min (min r g) b = r" by simp_all
    have h: "h = ((b - r) / (g - r)) / 6 + 1 / 3" using D
      by (simp add: hue mm field_simps)
    show ?thesis unfolding mm h
      using hue_up2 [OF bt(1,2), of r g] hue_up1 [OF bt(1,2), of r g] hue_up0 [OF bt(1,2), of r g] bt(3) D
      by (simp add: algebra_simps)
  next
    case E
    note bt = between [of r g b]
    from E have mm: "max (max r g) b = b" "min (min r g) b = r" by simp_all
    have h: "h = 2 / 3 - ((g - r) / (b - r)) / 6" using E
      by (simp add: hue mm field_simps)
    show ?thesis unfolding mm h
      using hue_dn3 [OF bt(1,2), of r b] hue_dn2 [OF bt(1,2), of r b] hue_dn1 [OF bt(1,2), of r b] bt(3) E
      by (simp add: algebra_simps)
  next
    case F
    note bt = between [of g r b]
    from F have mm: "max (max r g) b = b" "min (min r g) b = g" by simp_all
    have h: "h = ((r - g) / (b - g)) / 6 + 2 / 3" using F
      by (simp add: hue mm field_simps)
    show ?thesis unfolding mm h
      using hue_up3 [OF bt(1,2), of g b] hue_up2 [OF bt(1,2), of g b] hue_up1 [OF bt(1,2), of g b] bt(3) F
      by (simp add: algebra_simps)
  qed
qed

lemma hsl_pq:
  fixes mx mn :: rat
  assumes "0 \<le> mn" "mn < mx" "mx \<le> 1"
    and l: "l = (mx + mn) / 2"
    and s: "s = (if l > 1 / 2 then (mx - mn) / (2 - mx - mn) else (mx - mn) / (mx + mn))"
  shows "s \<noteq> 0" "(if l < 1 / 2 then l * (1 + s) else l + s - l * s) = mx"
proof -
  have pos: "0 < mx + mn" "0 < 2 - mx - mn" "0 < mx - mn" using assms by simp_all
  show "s \<noteq> 0" using pos by (simp add: s)
  show "(if l < 1 / 2 then l * (1 + s) else l + s - l * s) = mx"
  proof (cases "l > 1 / 2")
    case True
    then have "s = (mx - mn) / (2 - mx - mn)" by (simp add: s)
    moreover have "\<not> l < 1 / 2" using True by simp
    ultimately show ?thesis using pos by (simp add: l field_simps)
  next
    case False
    then have sv: "s = (mx - mn) / (mx + mn)" by (simp add: s)
    show ?thesis
    proof (cases "l < 1 / 2")
      case True
      then show ?thesis using pos by (simp add: sv l field_simps)
    next
      case F2: False
      with False have "l = 1 / 2" by simp
      then have "mx + mn = 1" by (simp add: l)
      then have "mn = 1 - mx" by simp
      then show ?thesis using F2 by (simp add: sv l field_simps)
    qed
  qed
qed

lemma hsl_roundtrip:
  fixes R G B :: rat
  assumes "0 \<le> R" "R \<le> 255" "0 \<le> G" "G \<le> 255" "0 \<le> B" "B \<le> 255"
  shows "case rgbToHsl R G B of (h, s, l) \<Rightarrow>
           0 \<le> l \<and> l \<le> 1 \<and> hslToRgb h s l = (js_round R, js_round G, js_round B)"
proof -
  define r g b where "r = R / 255" and "g = G / 255" and "b = B / 255"
  define mx mn where "mx = max (max r g) b" and "mn = min (min r g) b"
  define l where "l = (mx + mn) / 2"
  have rng: "0 \<le> r" "r \<le> 1" "0 \<le> g" "g \<le> 1" "0 \<le> b" "b \<le> 1"
    using assms by (simp_all add: r_def g_def b_def)
  have RGB: "r * 255 = R" "g * 255 = G" "b * 255 = B" by (simp_all add: r_def g_def b_def)
  have mb: "0 \<le> mn" "mn \<le> mx" "mx \<le> 1" using rng by (auto simp: mx_def mn_def)
  have lb: "0 \<le> l" "l \<le> 1" using mb by (simp_all add: l_def)
  show ?thesis
  proof (cases "mx = mn")
    case True
    then have eq: "g = r" "b = r" "mx = r" "mn = r" by (auto simp: mx_def mn_def max_def min_def split: if_splits)
    have "rgbToHsl R G B = (0, 0, r)"
      using eq by (simp add: rgbToHsl_def Let_def r_def [symmetric] g_def [symmetric] b_def [symmetric])
    moreover have "R = r * 255" "G = r * 255" "B = r * 255" using RGB eq by simp_all
    ultimately show ?thesis using rng by (simp add: hslToRgb_def Let_def)
  next
    case False
    define d where "d = mx - mn"
    define s where "s = (if l > 1 / 2 then d / (2 - mx - mn) else d / (mx + mn))"
    define h where "h = (if mx = r then ((g - b) / d + (if g < b then 6 else 0)) / 6
                    else if mx = g then ((b - r) / d + 2) / 6
                    else ((r - g) / d + 4) / 6)"
    have ne: "max (max (R / 255) (G / 255)) (B / 255) \<noteq> min (min (R / 255) (G / 255)) (B / 255)"
      using False unfolding mx_def mn_def r_def g_def b_def .
    have hsl: "rgbToHsl R G B = (h * 360, s, l)"
      unfolding rgbToHsl_def h_def s_def d_def l_def mx_def mn_def r_def g_def b_def Let_def
      by (simp only: ne if_False)
    have lt: "mn < mx" using False mb by simp
    have s': "s = (if l > 1 / 2 then (mx - mn) / (2 - mx - mn) else (mx - mn) / (mx + mn))"
      by (simp only: s_def d_def)
    note pq = hsl_pq [OF mb(1) lt mb(3) l_def s']
    have p: "2 * l - mx = mn" by (simp add: l_def field_simps)
    have ch: "hue2rgb mn mx (h + 1 / 3) = r \<and> hue2rgb mn mx h = g \<and> hue2rgb mn mx (h - 1 / 3) = b"
      unfolding mx_def mn_def
      by (rule hue_channels) (use False in \<open>simp_all add: mx_def mn_def h_def d_def\<close>)
    show ?thesis
      using lb pq ch by (simp add: hsl hslToRgb_def Let_def p RGB)
  qed
qed

subsection \<open>Hex digits, parsing and printing\<close>

lemma isHexDigit_iff:
  "isHexDigit c \<longleftrightarrow> c \<in> set ''0123456789abcdefABCDEF''"
  unfolding isHexDigit_def hexDigitVal_def map_of_eq_None_iff hexDigitTable_def by simp

lemma hexDigit_notWhiteSpace: "isHexDigit c \<Longrightarrow> \<not> isWhiteSpace c"
  unfolding isHexDigit_iff isWhiteSpace_def by (elim rev_mp) simp

lemma hexDigit_notSign:
  "isHexDigit c \<Longrightarrow> c \<noteq> CHR ''-'' \<and> c \<noteq> CHR ''+'' \<and> c \<noteq> CHR ''x'' \<and> c \<noteq> CHR ''X''"
  unfolding isHexDigit_iff by (elim rev_mp) simp

lemma hexDigit_upper:
  assumes "isHexDigit c"
  shows "hexVal c < 16 \<and> toUpperChar (hexDigitChar (hexVal c)) = toUpperChar c
       \<and> isHexDigit (toUpperChar c) \<and> hexVal (toUpperChar c) = hexVal c"
proof -
  have "c \<in> set ''0123456789abcdefABCDEF''" using assms by (simp only: isHexDigit_iff)
  then show ?thesis
    by (simp only: set_simps insert_iff empty_iff HOL.simp_thms, elim disjE)
       (simp_all add: hexVal_def isHexDigit_def hexDigitVal_def hexDigitTable_def toUpperChar_def
          upperTable_def hexDigitChar_def)
qed

lemma parseInt16_two:
  assumes a: "isHexDigit a" and b: "isHexDigit b"
  shows "parseInt16 [a, b] = Some (int (16 * hexVal a + hexVal b))"
proof -
  have 1: "dropWhile isWhiteSpace [a, b] = [a, b]"
    using hexDigit_notWhiteSpace [OF a] by simp
  have 2: "stripHexPrefix [a, b] = [a, b]"
    using hexDigit_notSign [OF b] by (simp add: stripHexPrefix_def)
  have 3: "takeWhile isHexDigit [a, b] = [a, b]" using a b by simp
  have 4: "(case [a, b] of c # r \<Rightarrow> if c = CHR ''-'' \<or> c = CHR ''+'' then r else [a, b] | [] \<Rightarrow> [a, b])
      = [a, b]"
    using hexDigit_notSign [OF a] by simp
  have 5: "(case [a, b] of c # _ \<Rightarrow> c = CHR ''-'' | [] \<Rightarrow> False) = False"
    using hexDigit_notSign [OF a] by simp
  show ?thesis
    unfolding parseInt16_def Let_def 1 4 5 2 3 by (simp add: hexDigitsVal_def hexVal_def)
qed

lemma toString16_two:
  assumes "da < 16" "db < 16"
  shows "padStart2 (toString16 (16 * da + db)) = [hexDigitChar da, hexDigitChar db]"
proof (cases "da = 0")
  case True
  then show ?thesis using assms
    by (simp add: toString16.simps [of db] padStart2_def hexDigitChar_def)
next
  case False
  then have "\<not> 16 * da + db < 16" by simp
  moreover have "(16 * da + db) div 16 = da" "(16 * da + db) mod 16 = db" using assms by simp_all
  ultimately show ?thesis using assms
    by (simp add: toString16.simps [of "16 * da + db"] toString16.simps [of da] padStart2_def)
qed

lemma toHex_two:
  assumes "da < 16" "db < 16"
  shows "toHex (of_int (int (16 * da + db))) = [toUpperChar (hexDigitChar da), toUpperChar (hexDigitChar db)]"
proof -
  have "16 * da + db \<le> 255" using assms by simp
  then have "max 0 (min 255 (rat_of_int (int (16 * da + db)))) = rat_of_int (int (16 * da + db))"
    by (simp add: min_def max_def)
  then have "nat (js_round (max 0 (min 255 (rat_of_int (int (16 * da + db)))))) = 16 * da + db"
    by (simp only: js_round_of_int nat_int)
  then show ?thesis using toString16_two [OF assms] by (simp add: toHex_def toUpperCase_def)
qed

lemma toHex_pair:
  assumes a: "isHexDigit a" and b: "isHexDigit b"
  shows "toHex (of_int (int (16 * hexVal a + hexVal b))) = [toUpperChar a, toUpperChar b]"
  using toHex_two [of "hexVal a" "hexVal b"] hexDigit_upper [OF a] hexDigit_upper [OF b] by simp

lemma applyModifiersRgb_lumMod_identity:
  assumes "0 \<le> R" "R \<le> 255" "0 \<le> G" "G \<le> 255" "0 \<le> B" "B \<le> 255"
  shows "applyModifiersRgb (of_int R, of_int G, of_int B) (lumModOnly 100000) = (R, G, B)"
proof -
  obtain h s l where hsl: "rgbToHsl (of_int R) (of_int G) (of_int B) = (h, s, l)"
    by (cases "rgbToHsl (of_int R) (of_int G) (of_int B)") auto
  have "0 \<le> l \<and> l \<le> 1 \<and> hslToRgb h s l
      = (js_round (of_int R), js_round (of_int G), js_round (of_int B))"
    using hsl_roundtrip [of "of_int R" "of_int G" "of_int B"] assms by (simp add: hsl)
  then show ?thesis
    by (simp add: applyModifiersRgb_def lumModOnly_def noModifiers_def applyShade_def applyTint_def
        hsl clamp01_def js_round_of_int)
qed

subsection \<open>Full luminance modulation\<close>

lemma length6:
  assumes "length (c :: 'a list) = 6"
  obtains a1 a2 a3 a4 a5 a6 where "c = [a1, a2, a3, a4, a5, a6]"
proof -
  from assms have "length c = Suc (Suc (Suc (Suc (Suc (Suc 0)))))" by simp
  then show ?thesis using that by (auto simp: length_Suc_conv)
qed

text \<open>
  Claim C1, as amended. For every string \<open>c\<close> of six hex digits, in either letter case,
  \<open>applyColorModifiers(c, {lumMod: 100000})\<close> returns \<open>c\<close> with its letters in upper case
  (so \<open>c\<close> itself when \<open>c\<close> is written in upper case), and the result has the RGB value
  of \<open>c\<close>: the conversion to HSL and back loses nothing.
\<close>

theorem lumMod_full_is_identity_on_rgb:
  assumes "hexColor6 c"
  shows "applyColorModifiers c (lumModOnly 100000) = toUpperCase c
       \<and> hexToRgb (applyColorModifiers c (lumModOnly 100000)) = hexToRgb c"
proof -
  from assms have len: "length c = 6" and all: "list_all isHexDigit c"
    by (simp_all add: hexColor6_def)
  from len obtain a1 a2 a3 a4 a5 a6 where c: "c = [a1, a2, a3, a4, a5, a6]" by (rule length6)
  from all have hx: "isHexDigit a1" "isHexDigit a2" "isHexDigit a3" "isHexDigit a4"
      "isHexDigit a5" "isHexDigit a6"
    by (simp_all add: c)
  define R G B where "R = int (16 * hexVal a1 + hexVal a2)"
    and "G = int (16 * hexVal a3 + hexVal a4)" and "B = int (16 * hexVal a5 + hexVal a6)"
  have rgb: "hexToRgb c = (Some R, Some G, Some B)"
    by (simp add: hexToRgb_def c parseInt16_two hx R_def G_def B_def)
  have bounds: "0 \<le> R" "R \<le> 255" "0 \<le> G" "G \<le> 255" "0 \<le> B" "B \<le> 255"
    using hexDigit_upper [OF hx(1)] hexDigit_upper [OF hx(2)] hexDigit_upper [OF hx(3)]
      hexDigit_upper [OF hx(4)] hexDigit_upper [OF hx(5)] hexDigit_upper [OF hx(6)]
    by (simp_all add: R_def G_def B_def)
  have hex: "rgbToHex (of_int R) (of_int G) (of_int B) = toUpperCase c"
    unfolding rgbToHex_def R_def G_def B_def toHex_pair [OF hx(1) hx(2)]
      toHex_pair [OF hx(3) hx(4)] toHex_pair [OF hx(5) hx(6)]
    by (simp add: c toUpperCase_def)
  have res: "applyColorModifiers c (lumModOnly 100000) = toUpperCase c"
    by (simp add: applyColorModifiers_def rgb applyModifiersRgb_lumMod_identity [OF bounds] hex)
  have up: "hexToRgb (toUpperCase c) = hexToRgb c"
    using hexDigit_upper [OF hx(1)] hexDigit_upper [OF hx(2)] hexDigit_upper [OF hx(3)]
      hexDigit_upper [OF hx(4)] hexDigit_upper [OF hx(5)] hexDigit_upper [OF hx(6)]
    by (simp add: hexToRgb_def c toUpperCase_def parseInt16_two hx)
  show ?thesis by (simp add: res up)
qed

theorem lumMod_full_is_identity_on_rgb_witness:
  "hexColor6 ''4472C4'' \<and> applyColorModifiers ''4472C4'' (lumModOnly 100000) = ''4472C4''
   \<and> hexToRgb (applyColorModifiers ''4472C4'' (lumModOnly 100000)) = (Some 68, Some 114, Some 196)"
proof -
  have h: "hexColor6 ''4472C4''" by code_simp
  have u: "toUpperCase ''4472C4'' = ''4472C4''" by code_simp
  have r: "hexToRgb ''4472C4'' = (Some 68, Some 114, Some 196)" by code_simp
  show ?thesis using lumMod_full_is_identity_on_rgb [OF h] h by (simp add: u r)
qed

text \<open>
  The claim as stated fails on lower-case input: \<open>rgbToHex\<close> upper-cases its output.
\<close>

theorem lumMod_lowercase_counterexample:
  "hexColor6 ''abcdef'' \<and> applyColorModifiers ''abcdef'' (lumModOnly 100000) = ''ABCDEF''
   \<and> applyColorModifiers ''abcdef'' (lumModOnly 100000) \<noteq> ''abcdef''"
  by code_simp

section \<open>Properties of the colour resolver\<close>











section \<open>Properties of the text runs\<close>










section \<open>Properties of placeholder inheritance\<close>

text \<open>
  Claim C6, as amended. For a layout placeholder, a missing local position triggers a
  lookup in the owning master's \<open>placeholderDefaults\<close> (when they are given), first by
  the placeholder's type name and otherwise by \<open>idx:<n>\<close>; the position of the entry
  found is inherited, and in that same lookup a missing local text body inherits the
  entry's text properties. A placeholder with a local position keeps it and makes no
  lookup at all, so its text is never inherited; local text is always kept.
\<close>

theorem processShape_inheritance:
  "sp_ph sp = Some ph \<longrightarrow>
     (\<forall>pos. sp_position sp = Some pos \<longrightarrow>
        out_position (processShape sp md) = Some pos
        \<and> out_textProps (processShape sp md) = sp_textProps sp)
     \<and> (\<forall>t. sp_textProps sp = Some t \<longrightarrow> out_textProps (processShape sp md) = Some t)
     \<and> (\<forall>m. sp_position sp = None \<and> md = Some m \<longrightarrow>
          out_position (processShape sp md)
            = (case lookupMasterDefault m ph of None \<Rightarrow> None | Some d \<Rightarrow> def_position d)
          \<and> (sp_textProps sp = None \<longrightarrow>
               out_textProps (processShape sp md)
                 = (case lookupMasterDefault m ph of None \<Rightarrow> None | Some d \<Rightarrow> def_textProps d)))
     \<and> (md = None \<longrightarrow>
          out_position (processShape sp md) = sp_position sp
          \<and> out_textProps (processShape sp md) = sp_textProps sp)
     \<and> (\<forall>m t d. ph_type ph = Some t \<and> t \<noteq> [] \<and> m t = Some d \<longrightarrow>
          lookupMasterDefault m ph = Some d)
     \<and> (\<forall>m i. (ph_type ph = None \<or> (\<exists>t. ph_type ph = Some t \<and> m t = None)) \<and> ph_idx ph = Some i \<longrightarrow>
          lookupMasterDefault m ph = m (''idx:'' @ i))"
  by (auto simp: processShape_def lookupMasterDefault_def truthyStr_def Let_def
      split: option.splits)

lemma example_lookups:
  "lookupMasterDefault exampleDefaults titleMarker = Some masterTitleDefault"
  "lookupMasterDefault exampleDefaults idxMarker
     = Some \<lparr>def_position = Some masterIdxPos, def_textProps = None\<rparr>"
  by (simp_all add: lookupMasterDefault_def exampleDefaults_def titleMarker_def idxMarker_def
      truthyStr_def)

theorem processShape_inheritance_witness:
  "out_position (processShape titleNoPosition (Some exampleDefaults)) = Some masterTitlePos
   \<and> out_textProps (processShape titleNoPosition (Some exampleDefaults)) = Some masterTitleText
   \<and> out_position (processShape contentNoPosition (Some exampleDefaults)) = Some masterIdxPos
   \<and> out_position (processShape titleLocalPosition (Some exampleDefaults)) = Some localPos
   \<and> out_position (processShape titleNoPosition None) = None"
proof -
  have 1: "out_position (processShape titleNoPosition (Some exampleDefaults)) = Some masterTitlePos
      \<and> out_textProps (processShape titleNoPosition (Some exampleDefaults)) = Some masterTitleText"
    using processShape_inheritance [of titleNoPosition titleMarker "Some exampleDefaults"]
    by (simp add: titleNoPosition_def example_lookups masterTitleDefault_def)
  have 2: "out_position (processShape contentNoPosition (Some exampleDefaults)) = Some masterIdxPos"
    using processShape_inheritance [of contentNoPosition idxMarker "Some exampleDefaults"]
    by (simp add: contentNoPosition_def example_lookups)
  have 3: "out_position (processShape titleLocalPosition (Some exampleDefaults)) = Some localPos"
    using processShape_inheritance [of titleLocalPosition titleMarker "Some exampleDefaults"]
    by (simp add: titleLocalPosition_def)
  have 4: "out_position (processShape titleNoPosition None) = None"
    using processShape_inheritance [of titleNoPosition titleMarker None]
    by (simp add: titleNoPosition_def)
  show ?thesis using 1 2 3 4 by simp
qed

text \<open>
  The claim as stated fails for a placeholder that has a position and no text: the
  master has text properties for its type, and none is inherited.
\<close>

theorem local_position_blocks_text_inheritance_counterexample:
  "sp_ph titleLocalPosition = Some titleMarker
   \<and> sp_textProps titleLocalPosition = None
   \<and> lookupMasterDefault exampleDefaults titleMarker = Some masterTitleDefault
   \<and> def_textProps masterTitleDefault = Some masterTitleText
   \<and> out_textProps (processShape titleLocalPosition (Some exampleDefaults)) = None"
  by (simp add: example_lookups titleLocalPosition_def masterTitleDefault_def processShape_def)

section \<open>Properties of the slide-number detection\<close>






section \<open>Properties of the limited-palette detection\<close>

lemma uniqueInOrder_fold:
  "distinct acc \<Longrightarrow>
     distinct (foldl (\<lambda>acc v. if v \<in> set acc then acc else acc @ [v]) acc xs)
     \<and> set (foldl (\<lambda>acc v. if v \<in> set acc then acc else acc @ [v]) acc xs) = set acc \<union> set xs"
  by (induction xs arbitrary: acc) auto

lemma uniqueInOrder_props: "distinct (uniqueInOrder xs)" "set (uniqueInOrder xs) = set xs"
  using uniqueInOrder_fold [of "[]" xs] by (simp_all add: uniqueInOrder_def)

lemma truthyStr_Some_iff: "truthyStr v = Some h \<longleftrightarrow> v = Some h \<and> h \<noteq> []"
  by (cases v) (auto simp: truthyStr_def)

lemma set_map_filter_eq: "set (List.map_filter f xs) = {y. \<exists>x \<in> set xs. f x = Some y}"
  by (induction xs) (auto split: option.splits)

lemma set_accentsOf:
  "set (accentsOf tc) = {h. h \<noteq> [] \<and> (\<exists>s \<in> set accentSlots. tc s = Some h)}"
  unfolding accentsOf_def set_map_filter_eq truthyStr_Some_iff by blast

lemma usable_set: "set (uniqueInOrder (filter nonNeutral (accentsOf tc))) = usableSet tc"
  unfolding uniqueInOrder_props set_filter set_accentsOf usableSet_def by blast

lemma hex6_no_hash: "list_all isHexDigit c \<Longrightarrow> remove1 CHR ''#'' c = c"
proof -
  assume "list_all isHexDigit c"
  moreover have "\<not> isHexDigit CHR ''#''" by (simp add: isHexDigit_iff)
  ultimately have "CHR ''#'' \<notin> set c"
    unfolding list_all_iff by blast
  then show ?thesis by (rule remove1_idem)
qed

lemma hexBrightness_hex6:
  assumes "hexColor6 c"
  shows "\<exists>r g b. hexToRgb c = (Some r, Some g, Some b) \<and> hexBrightness c = Some (luma r g b)
           \<and> (nonNeutral c \<longleftrightarrow> \<not> (luma r g b > 245 \<or> luma r g b < 10))"
proof -
  from assms have len: "length c = 6" and all: "list_all isHexDigit c"
    by (simp_all add: hexColor6_def)
  from len obtain a1 a2 a3 a4 a5 a6 where c: "c = [a1, a2, a3, a4, a5, a6]" by (rule length6)
  from all have hx: "isHexDigit a1" "isHexDigit a2" "isHexDigit a3" "isHexDigit a4"
      "isHexDigit a5" "isHexDigit a6"
    by (simp_all add: c)
  have rgb: "hexToRgb c = (Some (int (16 * hexVal a1 + hexVal a2)),
      Some (int (16 * hexVal a3 + hexVal a4)), Some (int (16 * hexVal a5 + hexVal a6)))"
    by (simp add: hexToRgb_def c parseInt16_two hx)
  have ne: "c \<noteq> []" by (simp add: c)
  have br: "hexBrightness c = Some (luma (int (16 * hexVal a1 + hexVal a2))
      (int (16 * hexVal a3 + hexVal a4)) (int (16 * hexVal a5 + hexVal a6)))"
    using rgb len ne unfolding hexBrightness_def hex6_no_hash [OF all] hexToRgb_def Let_def
    by (simp add: luma_def)
  show ?thesis using rgb br by (auto simp: nonNeutral_def)
qed

text \<open>
  Claim C8. For a theme, the usable accents are the distinct non-neutral colours of the
  six accent slots, and the palette is limited exactly when fewer than two remain (with
  no theme at all, \<open>null\<close>, the function reports no accents and no limitation). A
  six-digit hex colour is neutral (not \<open>nonNeutral\<close>) exactly when its luma-weighted
  brightness is above 245 or below 10. Six accents \<open>FFFFFF\<close> give a limited palette with
  no usable accent; two distinct non-neutral accents give a palette that is not limited.
\<close>

theorem detectLimitedPalette_rule:
  "set (usableAccents (detectLimitedPalette (Some tc))) = usableSet tc
   \<and> distinct (usableAccents (detectLimitedPalette (Some tc)))
   \<and> (isLimited (detectLimitedPalette (Some tc)) \<longleftrightarrow> card (usableSet tc) < 2)
   \<and> (hexColor6 c \<longrightarrow>
        (\<exists>r g b. hexToRgb c = (Some r, Some g, Some b) \<and> hexBrightness c = Some (luma r g b)
           \<and> (nonNeutral c \<longleftrightarrow> \<not> (luma r g b > 245 \<or> luma r g b < 10))))
   \<and> ((\<forall>s \<in> set accentSlots. tc s = Some ''FFFFFF'') \<longrightarrow>
        detectLimitedPalette (Some tc) = \<lparr>isLimited = True, usableAccents = []\<rparr>)
   \<and> (h1 \<in> usableSet tc \<and> h2 \<in> usableSet tc \<and> h1 \<noteq> h2 \<longrightarrow>
        \<not> isLimited (detectLimitedPalette (Some tc)))
   \<and> detectLimitedPalette None = \<lparr>isLimited = False, usableAccents = []\<rparr>"
proof -
  let ?u = "uniqueInOrder (filter nonNeutral (accentsOf tc))"
  have d: "detectLimitedPalette (Some tc) = \<lparr>isLimited = length ?u < 2, usableAccents = ?u\<rparr>"
    by (simp add: detectLimitedPalette_def Let_def)
  have s: "set ?u = usableSet tc" by (rule usable_set)
  have di: "distinct ?u" by (rule uniqueInOrder_props)
  have c: "card (usableSet tc) = length ?u" using distinct_card [OF di] s by simp
  have white: "\<not> nonNeutral ''FFFFFF''" by code_simp
  have w: "detectLimitedPalette (Some tc) = \<lparr>isLimited = True, usableAccents = []\<rparr>"
    if "\<forall>s \<in> set accentSlots. tc s = Some ''FFFFFF''"
  proof -
    from that have "usableSet tc = {}" using white by (auto simp: usableSet_def)
    then have "?u = []" using s by simp
    then show ?thesis by (simp add: d)
  qed
  have two: "\<not> length ?u < 2" if "h1 \<in> usableSet tc \<and> h2 \<in> usableSet tc \<and> h1 \<noteq> h2"
  proof -
    have fin: "finite (usableSet tc)" using s [symmetric] by simp
    from that have "{h1, h2} \<subseteq> usableSet tc" by simp
    then have "card {h1, h2} \<le> card (usableSet tc)" using fin by (rule card_mono [rotated])
    moreover have "card {h1, h2} = 2" using that by simp
    ultimately show ?thesis using c by simp
  qed
  have null: "detectLimitedPalette None = \<lparr>isLimited = False, usableAccents = []\<rparr>"
    by (simp add: detectLimitedPalette_def)
  show ?thesis using s di c w two hexBrightness_hex6 [of c] null by (simp add: d)
qed

theorem detectLimitedPalette_rule_witness:
  "detectLimitedPalette (Some allWhiteTheme) = \<lparr>isLimited = True, usableAccents = []\<rparr>
   \<and> \<not> isLimited (detectLimitedPalette (Some mixedTheme))
   \<and> hexBrightness ''4472C4'' = Some (luma 68 114 196)
   \<and> nonNeutral ''4472C4''"
proof -
  have aw: "\<forall>s \<in> set accentSlots. allWhiteTheme s = Some ''FFFFFF''"
    by (simp add: allWhiteTheme_def accentSlots_def)
  have 1: "detectLimitedPalette (Some allWhiteTheme) = \<lparr>isLimited = True, usableAccents = []\<rparr>"
    using detectLimitedPalette_rule [of allWhiteTheme "''FFFFFF''" "[]" "[]"] aw by blast
  have nn: "nonNeutral ''4472C4''" "nonNeutral ''ED7D31''" by code_simp+
  have m: "''4472C4'' \<in> usableSet mixedTheme" "''ED7D31'' \<in> usableSet mixedTheme"
    by (simp_all add: usableSet_def nn mixedTheme_def accentSlots_def)
  have 2: "\<not> isLimited (detectLimitedPalette (Some mixedTheme))"
  proof -
    have ne: "''4472C4'' \<noteq> ''ED7D31''" by simp
    show ?thesis
      using detectLimitedPalette_rule [of mixedTheme "''4472C4''" "''4472C4''" "''ED7D31''"] m ne
      by blast
  qed
  have h: "hexColor6 ''4472C4''" by code_simp
  have r: "hexToRgb ''4472C4'' = (Some 68, Some 114, Some 196)" by code_simp
  have 3: "hexBrightness ''4472C4'' = Some (luma 68 114 196)"
    using detectLimitedPalette_rule [of mixedTheme "''4472C4''" "''4472C4''" "''ED7D31''"] h r
    by auto
  show ?thesis using 1 2 3 nn by (intro conjI)
qed

section \<open>Properties of the deduplication\<close>







section \<open>Properties of relationship targets\<close>

lemma splitSlash_up: "splitSlash (''../'' @ s) = ''..'' # splitSlash s"
  by simp

lemma splitSlash_upwards: "splitSlash (upwards n t) = replicate n ''..'' @ splitSlash t"
proof (induction n)
  case 0
  show ?case by (simp add: upwards_def)
next
  case (Suc n)
  have "upwards (Suc n) t = ''../'' @ upwards n t" by (simp add: upwards_def)
  then show ?case using Suc by (simp only: splitSlash_up) simp
qed

lemma applySegments_excess:
  "length segments \<le> n \<Longrightarrow>
     applySegments segments (replicate n ''..'' @ segs) = applySegments [] segs"
proof (induction n arbitrary: segments)
  case 0
  then show ?case by simp
next
  case (Suc n)
  have "length (butlast segments) \<le> n" using Suc.prems by simp
  from Suc.IH [OF this] show ?case by simp
qed

lemma applySegments_no_dotdot:
  "''..'' \<notin> set segments \<Longrightarrow> ''..'' \<notin> set (applySegments segments segs)"
proof (induction segs arbitrary: segments)
  case Nil
  then show ?case by simp
next
  case (Cons seg segs)
  have "''..'' \<notin> set (butlast segments)" using Cons.prems by (auto dest: in_set_butlastD)
  then show ?case using Cons by auto
qed

lemma upwards_not_absolute: "0 < n \<Longrightarrow> \<exists>cs. upwards n t = CHR ''.'' # cs"
  by (cases n) (simp_all add: upwards_def)

text \<open>
  Claim C10. \<open>resolveRelPath\<close> is a total function on pairs of strings: none of its steps
  can fail, and popping the empty segment stack leaves it empty. So a \<open>..\<close> met on the
  empty stack is ignored, \<open>n\<close> leading \<open>..\<close> segments with \<open>n\<close> at least the depth of
  the base directory resolve as from the root, the stack that starts empty never holds
  a \<open>..\<close>, and \<open>resolveRelPath('a.xml', '../../x/y.xml')\<close> is \<open>x/y.xml\<close>. (A target that
  starts with a slash is returned without the slash, its segments unread.)
\<close>

theorem resolveRelPath_excess_parents:
  "resolveRelPath ''a.xml'' ''../../x/y.xml'' = ''x/y.xml''
   \<and> (length (baseSegments basePath) \<le> n \<and> 0 < n \<longrightarrow>
        resolveRelPath basePath (upwards n t) = joinSlash (applySegments [] (splitSlash t)))
   \<and> applySegments [] (''..'' # segs) = applySegments [] segs
   \<and> ''..'' \<notin> set (applySegments [] segs)
   \<and> resolveRelPath basePath (CHR ''/'' # t) = t"
proof -
  have 1: "resolveRelPath ''a.xml'' ''../../x/y.xml'' = ''x/y.xml''"
    by (simp add: resolveRelPath_def baseSegments_def baseDirOf_def)
  have 2: "resolveRelPath basePath (upwards n t) = joinSlash (applySegments [] (splitSlash t))"
    if "length (baseSegments basePath) \<le> n \<and> 0 < n"
  proof -
    from that obtain cs where u: "upwards n t = CHR ''.'' # cs"
      using upwards_not_absolute [of n t] by auto
    have "resolveRelPath basePath (upwards n t)
        = joinSlash (applySegments (baseSegments basePath) (splitSlash (upwards n t)))"
      by (simp add: resolveRelPath_def u)
    then show ?thesis using that by (simp add: splitSlash_upwards applySegments_excess)
  qed
  have 3: "resolveRelPath basePath (CHR ''/'' # t) = t" by (simp add: resolveRelPath_def)
  show ?thesis using 1 2 3 applySegments_no_dotdot [of "[]" segs] by simp
qed

theorem resolveRelPath_excess_parents_witness:
  "resolveRelPath ''ppt/slides/slide1.xml'' ''../../../../media/image1.png'' = ''media/image1.png''
   \<and> resolveRelPath ''a.xml'' ''../../x/y.xml'' = ''x/y.xml''"
proof -
  have b: "baseSegments ''ppt/slides/slide1.xml'' = [''ppt'', ''slides'']"
    by (simp add: baseSegments_def baseDirOf_def)
  have u: "upwards 4 ''media/image1.png'' = ''../../../../media/image1.png''"
    by (simp add: upwards_def numeral_eq_Suc)
  have j: "joinSlash (applySegments [] (splitSlash ''media/image1.png'')) = ''media/image1.png''"
    by simp
  show ?thesis
    using resolveRelPath_excess_parents [of "''ppt/slides/slide1.xml''" 4 "''media/image1.png''" "[]"]
    by (simp add: b u j)
qed

end
